theory Spec2Isabelle
  imports Complex_Main
begin

section \<open>Numbers, strings and truthiness of the source language\<close>

text \<open>
  The scoring engine of \<^verbatim>\<open>src/atrophy/main.js\<close> is embedded function by function.
  JavaScript numbers are modelled as exact reals: every statement below is about the
  arithmetic the source writes down, not about the rounding of IEEE-754 doubles.
  \<^verbatim>\<open>undefined\<close> and \<^verbatim>\<open>null\<close> are \<open>None\<close>. A volume table (a JavaScript object
  from region label to voxel count) is an association list in the order of
  \<^verbatim>\<open>Object.entries\<close>; a property read is \<open>map_of\<close>.
\<close>

type_synonym volumes = "(string \<times> real) list"

text \<open>\<^verbatim>\<open>Math.round\<close>: the nearest integer, a tie going up.\<close>

definition Math_round :: "real \<Rightarrow> int" where
  "Math_round x = \<lfloor>x + 1 / 2\<rfloor>"

text \<open>
  Truthiness of a value that is a number, \<^verbatim>\<open>undefined\<close> or \<^verbatim>\<open>null\<close>, as the
  guards \<^verbatim>\<open>x && ...\<close> and \<^verbatim>\<open>!x || ...\<close> test it: the number zero is falsy.
\<close>

definition truthy :: "real option \<Rightarrow> bool" where
  "truthy v = (case v of None \<Rightarrow> False | Some x \<Rightarrow> x \<noteq> 0)"

text \<open>\<^verbatim>\<open>volumes[key] || 0\<close>.\<close>

definition volume_or_zero :: "volumes \<Rightarrow> string \<Rightarrow> real" where
  "volume_or_zero volumes key = (case map_of volumes key of None \<Rightarrow> 0 | Some v \<Rightarrow> v)"

text \<open>\<^verbatim>\<open>String.prototype.toLowerCase\<close> on ASCII labels.\<close>

definition toLowerCase_char :: "char \<Rightarrow> char" where
  "toLowerCase_char c =
     (case map_of (zip ''ABCDEFGHIJKLMNOPQRSTUVWXYZ'' ''abcdefghijklmnopqrstuvwxyz'') c of
        None \<Rightarrow> c
      | Some l \<Rightarrow> l)"

definition toLowerCase :: "string \<Rightarrow> string" where
  "toLowerCase s = map toLowerCase_char s"

text \<open>\<^verbatim>\<open>String.prototype.includes\<close>: the argument occurs as a contiguous substring.\<close>

fun String_includes :: "string \<Rightarrow> string \<Rightarrow> bool" where
  "String_includes [] sub = (sub = [])"
| "String_includes (c # cs) sub = (take (length sub) (c # cs) = sub \<or> String_includes cs sub)"

section \<open>Reference data\<close>

datatype sex = male | female

text \<open>\<^verbatim>\<open>ICV_REFERENCE\<close>.\<close>

fun ICV_REFERENCE_mean :: "sex \<Rightarrow> real" where
  "ICV_REFERENCE_mean male = 1550000"
| "ICV_REFERENCE_mean female = 1350000"

fun ICV_REFERENCE_sd :: "sex \<Rightarrow> real" where
  "ICV_REFERENCE_sd male = 130000"
| "ICV_REFERENCE_sd female = 110000"

record normative =
  norm_mean :: real
  norm_sd :: real

text \<open>\<^verbatim>\<open>BPF_NORMATIVE.byAge\<close>.\<close>

definition BPF_NORMATIVE_byAge :: "(int \<times> normative) list" where
  "BPF_NORMATIVE_byAge =
     [(20, \<lparr>norm_mean = 0.88, norm_sd = 0.03\<rparr>),
      (30, \<lparr>norm_mean = 0.86, norm_sd = 0.03\<rparr>),
      (40, \<lparr>norm_mean = 0.84, norm_sd = 0.03\<rparr>),
      (50, \<lparr>norm_mean = 0.82, norm_sd = 0.04\<rparr>),
      (60, \<lparr>norm_mean = 0.79, norm_sd = 0.04\<rparr>),
      (70, \<lparr>norm_mean = 0.76, norm_sd = 0.05\<rparr>),
      (80, \<lparr>norm_mean = 0.72, norm_sd = 0.05\<rparr>)]"

text \<open>\<^verbatim>\<open>HOC_NORMATIVE.byAge\<close> (the \<^verbatim>\<open>p5\<close> column is read by no function).\<close>

definition HOC_NORMATIVE_byAge :: "(int \<times> normative) list" where
  "HOC_NORMATIVE_byAge =
     [(50, \<lparr>norm_mean = 0.92, norm_sd = 0.04\<rparr>),
      (60, \<lparr>norm_mean = 0.88, norm_sd = 0.05\<rparr>),
      (70, \<lparr>norm_mean = 0.82, norm_sd = 0.06\<rparr>),
      (80, \<lparr>norm_mean = 0.75, norm_sd = 0.08\<rparr>)]"

record coefficient =
  coef_b :: real
  coef_r2 :: real

text \<open>\<^verbatim>\<open>ICV_REGRESSION_COEFFICIENTS\<close>.\<close>

definition ICV_REGRESSION_COEFFICIENTS :: "(string \<times> coefficient) list" where
  "ICV_REGRESSION_COEFFICIENTS =
     [(''Hippocampus'', \<lparr>coef_b = 0.0037, coef_r2 = 0.15\<rparr>),
      (''Thalamus'', \<lparr>coef_b = 0.0082, coef_r2 = 0.22\<rparr>),
      (''Caudate'', \<lparr>coef_b = 0.0045, coef_r2 = 0.18\<rparr>),
      (''Putamen'', \<lparr>coef_b = 0.0058, coef_r2 = 0.20\<rparr>),
      (''Pallidum'', \<lparr>coef_b = 0.0019, coef_r2 = 0.14\<rparr>),
      (''Amygdala'', \<lparr>coef_b = 0.0018, coef_r2 = 0.12\<rparr>),
      (''Accumbens-area'', \<lparr>coef_b = 0.0006, coef_r2 = 0.10\<rparr>),
      (''Lateral-Ventricle'', \<lparr>coef_b = 0.0085, coef_r2 = 0.08\<rparr>),
      (''Inferior-Lateral-Ventricle'', \<lparr>coef_b = 0.0008, coef_r2 = 0.05\<rparr>),
      (''Cerebral-White-Matter'', \<lparr>coef_b = 0.28, coef_r2 = 0.45\<rparr>),
      (''Cerebral-Cortex'', \<lparr>coef_b = 0.32, coef_r2 = 0.50\<rparr>),
      (''Cerebellum-Cortex'', \<lparr>coef_b = 0.055, coef_r2 = 0.25\<rparr>),
      (''Cerebellum-White-Matter'', \<lparr>coef_b = 0.015, coef_r2 = 0.20\<rparr>),
      (''Brain-Stem'', \<lparr>coef_b = 0.012, coef_r2 = 0.18\<rparr>),
      (''VentralDC'', \<lparr>coef_b = 0.0042, coef_r2 = 0.16\<rparr>)]"

section \<open>Intracranial volume\<close>

text \<open>
  \<^verbatim>\<open>estimateICV(volumes, age, sex)\<close>. The loop over \<^verbatim>\<open>Object.entries(volumes)\<close> is a
  fold carrying \<^verbatim>\<open>(brainVolume, ventricleVolume)\<close>; each reassignment of
  \<^verbatim>\<open>estimatedICV\<close> is a new binding.
\<close>

definition partitionStep :: "string \<times> real \<Rightarrow> real \<times> real \<Rightarrow> real \<times> real" where
  "partitionStep entry acc =
     (case entry of (region, volume) \<Rightarrow>
      case acc of (brainVolume, ventricleVolume) \<Rightarrow>
        if String_includes (toLowerCase region) ''ventricle''
        then (brainVolume, ventricleVolume + volume)
        else (brainVolume + volume, ventricleVolume))"

definition estimateICV :: "volumes \<Rightarrow> real \<Rightarrow> sex \<Rightarrow> int" where
  "estimateICV volumes age sx =
     (case fold partitionStep volumes (0, 0) of (brainVolume, ventricleVolume) \<Rightarrow>
      let segmentedTotal = brainVolume + ventricleVolume;
          ageDecade = min 80 (max 20 (Math_round (age / 10) * 10));
          expectedBPF = (case map_of BPF_NORMATIVE_byAge ageDecade of
                           None \<Rightarrow> 0.76
                         | Some e \<Rightarrow> if norm_mean e = 0 then 0.76 else norm_mean e);
          icvFromBPF = brainVolume / expectedBPF;
          anatomicalScaleFactor = 1.12;
          icvFromAnatomical = segmentedTotal * anatomicalScaleFactor;
          refICV = ICV_REFERENCE_mean sx;
          refSD = ICV_REFERENCE_sd sx;
          estimatedICV0 = icvFromBPF;
          minICV = refICV - 3 * refSD;
          maxICV = refICV + 3 * refSD;
          estimatedICV1 = (if estimatedICV0 < minICV \<or> estimatedICV0 > maxICV
                           then (icvFromBPF + icvFromAnatomical) / 2
                           else estimatedICV0);
          estimatedICV2 = max estimatedICV1 (segmentedTotal * 1.05);
          estimatedICV3 = min estimatedICV2 maxICV;
          estimatedICV4 = max estimatedICV3 minICV
      in Math_round estimatedICV4)"

text \<open>
  The estimator as the specification words it: a region is ventricular iff its label
  contains ``ventricle'' at some position, compared case-insensitively; the expected BPF is
  the table entry at the age clamped into 20..80 and rounded to the nearest ten; the
  primary estimate is kept inside the band mean \<open>\<plusminus>\<close> 3 SD and blended outside; three clamps in
  order; nearest integer.
\<close>

definition containsCI :: "string \<Rightarrow> string \<Rightarrow> bool" where
  "containsCI label word =
     list_ex (\<lambda>i. map toLowerCase_char (take (length word) (drop i label)) = map toLowerCase_char word)
       [0 ..< Suc (length label)]"

definition isVentricular :: "string \<Rightarrow> bool" where
  "isVentricular label = containsCI label ''ventricle''"

definition ventricularVolume :: "volumes \<Rightarrow> real" where
  "ventricularVolume volumes = sum_list (map snd (filter (\<lambda>e. isVentricular (fst e)) volumes))"

definition parenchymalVolume :: "volumes \<Rightarrow> real" where
  "parenchymalVolume volumes = sum_list (map snd (filter (\<lambda>e. \<not> isVentricular (fst e)) volumes))"

definition nearestDecade :: "real \<Rightarrow> int" where
  "nearestDecade age = round (min 80 (max 20 age) / 10) * 10"

definition expectedBPF_spec :: "real \<Rightarrow> real" where
  "expectedBPF_spec age = norm_mean (the (map_of BPF_NORMATIVE_byAge (nearestDecade age)))"

definition estimateICV_spec :: "volumes \<Rightarrow> real \<Rightarrow> sex \<Rightarrow> int" where
  "estimateICV_spec volumes age sx =
     (let parenchymal = parenchymalVolume volumes;
          segmentedTotal = parenchymal + ventricularVolume volumes;
          icv_A = parenchymal / expectedBPF_spec age;
          icv_B = segmentedTotal * 1.12;
          lower = ICV_REFERENCE_mean sx - 3 * ICV_REFERENCE_sd sx;
          upper = ICV_REFERENCE_mean sx + 3 * ICV_REFERENCE_sd sx;
          primary = (if lower \<le> icv_A \<and> icv_A \<le> upper then icv_A else (icv_A + icv_B) / 2)
      in round (max lower (min upper (max (segmentedTotal * 1.05) primary))))"

section \<open>ICV normalisation\<close>

text \<open>\<^verbatim>\<open>applyICVNormalization(volume, region, icv, sex)\<close>.\<close>

definition applyICVNormalization :: "real \<Rightarrow> string \<Rightarrow> real \<Rightarrow> sex \<Rightarrow> real" where
  "applyICVNormalization volume region icv sx =
     (case map_of ICV_REGRESSION_COEFFICIENTS region of
        None \<Rightarrow> volume
      | Some coef \<Rightarrow>
          let icvMean = ICV_REFERENCE_mean sx;
              adjustedVolume = volume - coef_b coef * (icv - icvMean)
          in max 0 adjustedVolume)"

section \<open>Z-score interpretation\<close>

text \<open>\<^verbatim>\<open>interpretZScore(zscore, invertZscore = false)\<close>.\<close>

definition interpretZScore :: "real \<Rightarrow> bool \<Rightarrow> string" where
  "interpretZScore zscore invertZscore =
     (let effectiveZ = (if invertZscore then - zscore else zscore)
      in if effectiveZ \<ge> -1.0 then ''normal''
         else if effectiveZ \<ge> -1.5 then ''low-normal''
         else if effectiveZ \<ge> -2.0 then ''mild''
         else if effectiveZ \<ge> -2.5 then ''moderate''
         else ''severe'')"

section \<open>Normal distribution function\<close>

text \<open>\<^verbatim>\<open>normalCDF(z)\<close>; the parameter is reassigned in the source, here \<open>z0\<close> is the argument.\<close>

definition normalCDF :: "real \<Rightarrow> real" where
  "normalCDF z0 =
     (let a1 = 0.254829592; a2 = -0.284496736; a3 = 1.421413741;
          a4 = -1.453152027; a5 = 1.061405429; p = 0.3275911;
          sign = (if z0 < 0 then -1 else 1);
          z = \<bar>z0\<bar> / sqrt 2;
          t = 1.0 / (1.0 + p * z);
          y = 1.0 - (((((a5 * t + a4) * t) + a3) * t + a2) * t + a1) * t * exp (- z * z)
      in 0.5 * (1.0 + sign * y))"

text \<open>
  The parts of the formula, named for the proofs: the polynomial in \<open>t\<close>, its derivative
  written over the Bernstein basis of degree 4 on the unit interval, and the term
  subtracted from 1 as a function of the scaled argument.
\<close>

definition erfPoly :: "real \<Rightarrow> real" where
  "erfPoly t = (((((1.061405429 * t + (-1.453152027)) * t) + 1.421413741) * t + (-0.284496736)) * t
                 + 0.254829592) * t"

definition erfPoly' :: "real \<Rightarrow> real" where
  "erfPoly' t = 0.254829592 * (1 - t) ^ 4 + 4 * 0.112581224 * t * (1 - t) ^ 3
                + 6 * 0.6810397265 * t ^ 2 * (1 - t) ^ 2 + 4 * 0.5070530725 * t ^ 3 * (1 - t)
                + 3.44449638 * t ^ 4"

definition erfTail :: "real \<Rightarrow> real" where
  "erfTail x = erfPoly (1 / (1 + 0.3275911 * x)) * exp (- x * x)"

section \<open>Hippocampal occupancy score\<close>

text \<open>
  The object \<^verbatim>\<open>calculateHOC\<close> returns. The degenerate return carries two properties only;
  a property that the returned object does not have is \<open>None\<close>.
\<close>

record hoc_result =
  hoc_value :: "real option"
  hoc_interpretation :: string
  hoc_zscore :: "real option"
  hoc_percentile :: "int option"
  hoc_description :: "string option"
  hoc_conversionRisk :: "string option"
  hoc_conversionRate :: "string option"
  hoc_hippoVolume :: "real option"
  hoc_ilvVolume :: "real option"
  hoc_expected :: "real option"

text \<open>\<^verbatim>\<open>HOC_NORMATIVE.interpretation\<close> and \<^verbatim>\<open>HOC_NORMATIVE.conversionRisk\<close>, each band
  with the columns the function reads.\<close>

record hoc_band =
  band_label :: string
  band_description :: string
  band_risk :: string
  band_conversionRate :: string

definition HOC_NORMATIVE_normal :: hoc_band where
  "HOC_NORMATIVE_normal =
     \<lparr>band_label = ''Normal'', band_description = ''No significant medial temporal atrophy'',
      band_risk = ''Low'', band_conversionRate = ''~10% at 3 years''\<rparr>"

definition HOC_NORMATIVE_mild :: hoc_band where
  "HOC_NORMATIVE_mild =
     \<lparr>band_label = ''Mild'', band_description = ''Mild medial temporal atrophy'',
      band_risk = ''Moderate'', band_conversionRate = ''~25% at 3 years''\<rparr>"

definition HOC_NORMATIVE_moderate :: hoc_band where
  "HOC_NORMATIVE_moderate =
     \<lparr>band_label = ''Moderate'',
      band_description = ''Moderate medial temporal atrophy - consider MCI'',
      band_risk = ''High'', band_conversionRate = ''~50% at 3 years''\<rparr>"

definition HOC_NORMATIVE_severe :: hoc_band where
  "HOC_NORMATIVE_severe =
     \<lparr>band_label = ''Severe'',
      band_description = ''Severe medial temporal atrophy - consistent with AD'',
      band_risk = ''Very High'', band_conversionRate = ''~75% at 3 years''\<rparr>"

text \<open>\<^verbatim>\<open>calculateHOC(volumes, age)\<close>.\<close>

definition calculateHOC :: "volumes \<Rightarrow> real \<Rightarrow> hoc_result" where
  "calculateHOC volumes age =
     (let hippoVol = volume_or_zero volumes ''Hippocampus'';
          ilvVol = volume_or_zero volumes ''Inferior-Lateral-Ventricle''
      in if hippoVol = 0 then
           \<lparr>hoc_value = None,
            hoc_interpretation = ''Unable to calculate - hippocampus not segmented'',
            hoc_zscore = None, hoc_percentile = None, hoc_description = None,
            hoc_conversionRisk = None, hoc_conversionRate = None,
            hoc_hippoVolume = None, hoc_ilvVolume = None, hoc_expected = None\<rparr>
         else
           let hoc = hippoVol / (hippoVol + ilvVol);
               ageDecade = min 80 (max 50 (Math_round (age / 10) * 10));
               normative = (case map_of HOC_NORMATIVE_byAge ageDecade of
                              None \<Rightarrow> the (map_of HOC_NORMATIVE_byAge 70)
                            | Some e \<Rightarrow> e);
               zscore = (hoc - norm_mean normative) / norm_sd normative;
               percentile = Math_round (normalCDF zscore * 100);
               band = (if hoc \<ge> 0.80 then HOC_NORMATIVE_normal
                       else if hoc \<ge> 0.70 then HOC_NORMATIVE_mild
                       else if hoc \<ge> 0.60 then HOC_NORMATIVE_moderate
                       else HOC_NORMATIVE_severe)
           in \<lparr>hoc_value = Some (real_of_int (Math_round (hoc * 1000)) / 1000),
               hoc_interpretation = band_label band,
               hoc_zscore = Some (real_of_int (Math_round (zscore * 100)) / 100),
               hoc_percentile = Some percentile,
               hoc_description = Some (band_description band),
               hoc_conversionRisk = Some (band_risk band),
               hoc_conversionRate = Some (band_conversionRate band),
               hoc_hippoVolume = Some hippoVol,
               hoc_ilvVolume = Some ilvVol,
               hoc_expected = Some (norm_mean normative)\<rparr>)"

section \<open>Brain parenchymal fraction\<close>

record bpf_result =
  bpf_value :: real
  bpf_zscore :: real
  bpf_percentile :: int
  bpf_interpretation :: string
  bpf_expected :: real
  bpf_brainVolume :: real
  bpf_icv :: real

text \<open>\<^verbatim>\<open>calculateBPF(volumes, icv, age)\<close>, with the four values of
  \<^verbatim>\<open>BPF_NORMATIVE.thresholds\<close> written in place.\<close>

definition brainVolumeStep :: "string \<times> real \<Rightarrow> real \<Rightarrow> real" where
  "brainVolumeStep entry brainVolume =
     (case entry of (region, volume) \<Rightarrow>
        if \<not> String_includes (toLowerCase region) ''ventricle''
        then brainVolume + volume else brainVolume)"

definition calculateBPF :: "volumes \<Rightarrow> real \<Rightarrow> real \<Rightarrow> bpf_result" where
  "calculateBPF volumes icv age =
     (let brainVolume = fold brainVolumeStep volumes 0;
          bpf = brainVolume / icv;
          ageDecade = min 80 (max 20 (Math_round (age / 10) * 10));
          normative = (case map_of BPF_NORMATIVE_byAge ageDecade of
                         None \<Rightarrow> the (map_of BPF_NORMATIVE_byAge 70)
                       | Some e \<Rightarrow> e);
          zscore = (bpf - norm_mean normative) / norm_sd normative;
          percentile = Math_round (normalCDF zscore * 100);
          interpretation =
            (if zscore \<ge> -1.0 then ''Normal''
             else if zscore \<ge> -1.5 then ''Low-Normal''
             else if zscore \<ge> -2.0 then ''Mild Atrophy''
             else if zscore \<ge> -2.5 then ''Moderate Atrophy''
             else ''Severe Atrophy'')
      in \<lparr>bpf_value = real_of_int (Math_round (bpf * 1000)) / 1000,
          bpf_zscore = real_of_int (Math_round (zscore * 100)) / 100,
          bpf_percentile = percentile,
          bpf_interpretation = interpretation,
          bpf_expected = norm_mean normative,
          bpf_brainVolume = brainVolume,
          bpf_icv = icv\<rparr>)"

section \<open>Medial temporal atrophy score\<close>

text \<open>A table bound: a number, \<^verbatim>\<open>Infinity\<close> or \<^verbatim>\<open>-Infinity\<close>, with the two
  comparisons the loops make against it.\<close>

datatype bound = Num real | Infinity | MinusInfinity

fun le_bound :: "real \<Rightarrow> bound \<Rightarrow> bool" where
  "le_bound x (Num y) = (x \<le> y)"
| "le_bound x Infinity = True"
| "le_bound x MinusInfinity = False"

fun ge_bound :: "real \<Rightarrow> bound \<Rightarrow> bool" where
  "ge_bound x (Num y) = (x \<ge> y)"
| "ge_bound x Infinity = False"
| "ge_bound x MinusInfinity = True"

text \<open>\<^verbatim>\<open>STANDARDIZED_SCALES.MTA\<close>: \<^verbatim>\<open>qmtaToScore\<close>, \<^verbatim>\<open>zscoreToScore\<close>, the labels of
  \<^verbatim>\<open>scores\<close>, and \<^verbatim>\<open>ageThresholds\<close> as \<^verbatim>\<open>Object.entries\<close> lists it and the numeric sort
  leaves it (keys ascending, each read back by \<^verbatim>\<open>parseInt\<close>).\<close>

definition MTA_qmtaToScore :: "(bound \<times> real) list" where
  "MTA_qmtaToScore = [(Num 0.10, 0), (Num 0.20, 1), (Num 0.35, 2), (Num 0.55, 3), (Infinity, 4)]"

definition MTA_zscoreToScore :: "(bound \<times> real) list" where
  "MTA_zscoreToScore =
     [(Num (-0.5), 0), (Num (-1.0), 1), (Num (-1.5), 2), (Num (-2.0), 3), (MinusInfinity, 4)]"

definition MTA_scores :: "(int \<times> string) list" where
  "MTA_scores = [(0, ''Normal''), (1, ''Minimal''), (2, ''Mild''), (3, ''Moderate''), (4, ''Severe'')]"

definition MTA_ageThresholds :: "(int \<times> real) list" where
  "MTA_ageThresholds = [(65, 1.0), (75, 1.5), (85, 2.0), (100, 2.5)]"

text \<open>The three \<^verbatim>\<open>for ... of\<close> loops: the first entry whose test holds assigns and breaks;
  with no such entry the variable keeps its initial value.\<close>

fun qmtaLoop :: "real \<Rightarrow> (bound \<times> real) list \<Rightarrow> real \<Rightarrow> real" where
  "qmtaLoop qmtaRatio [] mtaFromRatio = mtaFromRatio"
| "qmtaLoop qmtaRatio ((maxRatio, score) # rest) mtaFromRatio =
     (if le_bound qmtaRatio maxRatio then score else qmtaLoop qmtaRatio rest mtaFromRatio)"

fun zscoreLoop :: "real \<Rightarrow> (bound \<times> real) list \<Rightarrow> real \<Rightarrow> real" where
  "zscoreLoop hippoZscore [] mtaFromZscore = mtaFromZscore"
| "zscoreLoop hippoZscore ((minZ, score) # rest) mtaFromZscore =
     (if ge_bound hippoZscore minZ then score else zscoreLoop hippoZscore rest mtaFromZscore)"

fun ageThresholdLoop :: "real \<Rightarrow> (int \<times> real) list \<Rightarrow> real \<Rightarrow> real" where
  "ageThresholdLoop age [] ageThreshold = ageThreshold"
| "ageThresholdLoop age ((maxAge, threshold) # rest) ageThreshold =
     (if age < real_of_int maxAge then threshold else ageThresholdLoop age rest ageThreshold)"

text \<open>The object \<^verbatim>\<open>calculateMTAScore\<close> returns, without the constant \<^verbatim>\<open>maxScore\<close> and
  \<^verbatim>\<open>reference\<close> and the long \<^verbatim>\<open>description\<close> text.\<close>

record mta_result =
  mta_score :: real
  mta_label :: string
  mta_qmtaRatio :: real
  mta_mtaFromRatio :: real
  mta_mtaFromZscore :: real
  mta_ageThreshold :: real
  mta_isAbnormal :: bool
  mta_interpretation :: string

text \<open>\<^verbatim>\<open>calculateMTAScore(volumes, hippoZscore, age)\<close>.\<close>

definition calculateMTAScore :: "volumes \<Rightarrow> real option \<Rightarrow> real \<Rightarrow> mta_result" where
  "calculateMTAScore volumes hippoZscore age =
     (let hippoVol = volume_or_zero volumes ''Hippocampus'';
          ilvVol = volume_or_zero volumes ''Inferior-Lateral-Ventricle'';
          qmtaRatio = (if hippoVol > 0 then ilvVol / hippoVol else 0);
          mtaFromRatio = (if hippoVol > 0 then qmtaLoop qmtaRatio MTA_qmtaToScore 0 else 0);
          mtaFromZscore = (case hippoZscore of
                             None \<Rightarrow> 0
                           | Some z \<Rightarrow> zscoreLoop z MTA_zscoreToScore 0);
          mtaScore = real_of_int (Math_round ((mtaFromRatio + mtaFromZscore) / 2 * 2)) / 2;
          ageThreshold = ageThresholdLoop age MTA_ageThresholds 2.0;
          isAbnormal = (mtaScore > ageThreshold);
          label = (case map_of MTA_scores \<lfloor>mtaScore\<rfloor> of
                     Some l \<Rightarrow> l
                   | None \<Rightarrow> (case map_of MTA_scores (Math_round mtaScore) of
                                Some l \<Rightarrow> l
                              | None \<Rightarrow> ''Unknown''))
      in \<lparr>mta_score = mtaScore,
          mta_label = label,
          mta_qmtaRatio = real_of_int (Math_round (qmtaRatio * 100)) / 100,
          mta_mtaFromRatio = mtaFromRatio,
          mta_mtaFromZscore = mtaFromZscore,
          mta_ageThreshold = ageThreshold,
          mta_isAbnormal = isAbnormal,
          mta_interpretation = (if isAbnormal then ''Abnormal for age'' else ''Normal for age'')\<rparr>)"

section \<open>Clinical patterns\<close>

text \<open>
  What \<^verbatim>\<open>detectClinicalPatterns\<close> reads of its argument: per region the \<^verbatim>\<open>zscore\<close> and
  \<^verbatim>\<open>effectiveZscore\<close> stored by the analysis, the HOC object and the z-score of the BPF
  object.
\<close>

record region_result =
  rr_volume :: real
  rr_zscore :: real
  rr_effectiveZscore :: real

record analysis_results =
  ar_regions :: "string \<rightharpoonup> region_result"
  ar_hoc :: "hoc_result option"
  ar_bpf :: "bpf_result option"

record clinical_pattern =
  pattern :: string
  confidence :: string
  indicators :: "string list"
  recommendation :: string

text \<open>The guards on a number that may be absent, as the source writes them:
  \<^verbatim>\<open>x && x < c\<close>, \<^verbatim>\<open>x && x > c\<close>, \<^verbatim>\<open>x && x >= c\<close>, \<^verbatim>\<open>!x || x >= c\<close>, \<^verbatim>\<open>!x || x > c\<close>.\<close>

definition and_lt :: "real option \<Rightarrow> real \<Rightarrow> bool" where
  "and_lt x c = (truthy x \<and> the x < c)"

definition and_gt :: "real option \<Rightarrow> real \<Rightarrow> bool" where
  "and_gt x c = (truthy x \<and> the x > c)"

definition and_ge :: "real option \<Rightarrow> real \<Rightarrow> bool" where
  "and_ge x c = (truthy x \<and> the x \<ge> c)"

definition not_or_ge :: "real option \<Rightarrow> real \<Rightarrow> bool" where
  "not_or_ge x c = (\<not> truthy x \<or> the x \<ge> c)"

definition not_or_gt :: "real option \<Rightarrow> real \<Rightarrow> bool" where
  "not_or_gt x c = (\<not> truthy x \<or> the x > c)"

text \<open>Each block of the function takes the list \<^verbatim>\<open>patterns\<close> built so far and returns it,
  extended by \<^verbatim>\<open>push\<close> or unchanged.\<close>

definition alzheimerBlock ::
  "real option \<Rightarrow> real option \<Rightarrow> real option \<Rightarrow> clinical_pattern list \<Rightarrow> clinical_pattern list" where
  "alzheimerBlock hippoZ hoc amygZ patterns =
     (case hippoZ of
        None \<Rightarrow> patterns
      | Some hz \<Rightarrow>
          if hz < -1.5 then
            let (adScore1, adIndicators1) =
                  (if hz < -2.0 then (3 :: nat, [''significant hippocampal atrophy''])
                   else if hz < -1.5 then (2, [''mild hippocampal atrophy''])
                   else (0, []));
                (adScore2, adIndicators2) =
                  (if and_lt hoc 0.75 then (adScore1 + 2, adIndicators1 @ [''low HOC score''])
                   else (adScore1, adIndicators1));
                (adScore, adIndicators) =
                  (if and_lt amygZ (-1.5) then (adScore2 + 1, adIndicators2 @ [''amygdala atrophy''])
                   else (adScore2, adIndicators2))
            in if adScore \<ge> 3 then
                 patterns @
                   [\<lparr>pattern = ''Alzheimer's Disease Pattern'',
                     confidence = (if adScore \<ge> 5 then ''High'' else ''Moderate''),
                     indicators = adIndicators,
                     recommendation = ''Consider clinical correlation for Alzheimer's disease. Recommend neuropsychological testing if not already performed.''\<rparr>]
               else patterns
          else patterns)"

definition frontotemporalBlock ::
  "real option \<Rightarrow> real option \<Rightarrow> clinical_pattern list \<Rightarrow> clinical_pattern list" where
  "frontotemporalBlock caudateZ hippoZ patterns =
     (if and_lt caudateZ (-2.0) \<and> not_or_gt hippoZ (the caudateZ + 0.5) then
        patterns @
          [\<lparr>pattern = ''Frontotemporal Dementia Pattern'',
            confidence = ''Low-Moderate'',
            indicators = [''caudate atrophy exceeds hippocampal atrophy''],
            recommendation = ''Pattern may suggest frontotemporal involvement. Consider behavioral assessment.''\<rparr>]
      else patterns)"

definition vascularBlock :: "real option \<Rightarrow> clinical_pattern list \<Rightarrow> clinical_pattern list" where
  "vascularBlock wmZ patterns =
     (if and_lt wmZ (-2.0) then
        patterns @
          [\<lparr>pattern = ''Vascular Dementia Pattern'',
            confidence = ''Moderate'',
            indicators = [''significant white matter volume loss''],
            recommendation = ''White matter atrophy detected. Consider vascular risk factors and MRA if not performed.''\<rparr>]
      else patterns)"

definition earlyMCIBlock ::
  "real option \<Rightarrow> real option \<Rightarrow> real option \<Rightarrow> clinical_pattern list \<Rightarrow> clinical_pattern list" where
  "earlyMCIBlock hoc hippoZ ilvZ patterns =
     (if and_lt hoc 0.80 \<and> not_or_ge hippoZ (-1.5) then
        let (mciIndicators1, confidence1) =
              (if the hoc < 0.70 then ([''moderate HOC reduction''], ''Moderate'')
               else if the hoc < 0.75 then ([''mild-moderate HOC reduction''], ''Low-Moderate'')
               else ([''mild HOC reduction''], ''Low''));
            (mciIndicators, confidence2) =
              (if and_gt ilvZ 0.5 then
                 (mciIndicators1 @ [''temporal horn enlargement''],
                  if confidence1 = ''Low'' then ''Low-Moderate'' else ''Moderate'')
               else (mciIndicators1, confidence1))
        in patterns @
             [\<lparr>pattern = ''Early MCI / Subtle Medial Temporal Changes'',
               confidence = confidence2,
               indicators = mciIndicators,
               recommendation = ''HOC indicates subtle medial temporal changes despite preserved hippocampal volume. Consider neuropsychological testing to evaluate for early MCI. Follow-up imaging in 12-18 months may be informative.''\<rparr>]
      else patterns)"

definition normalAgingBlock ::
  "real option \<Rightarrow> real option \<Rightarrow> real option \<Rightarrow> clinical_pattern list \<Rightarrow> clinical_pattern list" where
  "normalAgingBlock bpfZ hippoZ hoc patterns =
     (if length patterns = 0 \<and> and_ge bpfZ (-1.5) \<and> not_or_ge hippoZ (-1.5) \<and> not_or_ge hoc 0.80 then
        patterns @
          [\<lparr>pattern = ''Normal Aging Pattern'',
            confidence = ''High'',
            indicators = [''volumes within expected range for age''],
            recommendation = ''Findings consistent with normal age-related changes.''\<rparr>]
      else patterns)"

definition fallbackBlock :: "clinical_pattern list \<Rightarrow> clinical_pattern list" where
  "fallbackBlock patterns =
     (if length patterns = 0 then
        patterns @
          [\<lparr>pattern = ''Normal Aging Pattern'',
            confidence = ''Moderate'',
            indicators = [''volumes largely within expected range''],
            recommendation = ''Overall volumes appear normal. Continue routine monitoring.''\<rparr>]
      else patterns)"

text \<open>\<^verbatim>\<open>detectClinicalPatterns(results)\<close>.\<close>

definition detectClinicalPatterns :: "analysis_results \<Rightarrow> clinical_pattern list" where
  "detectClinicalPatterns results =
     (let hippoZ = map_option rr_effectiveZscore (ar_regions results ''Hippocampus'');
          amygZ = map_option rr_effectiveZscore (ar_regions results ''Amygdala'');
          caudateZ = map_option rr_effectiveZscore (ar_regions results ''Caudate'');
          wmZ = map_option rr_effectiveZscore (ar_regions results ''Cerebral-White-Matter'');
          hoc = (case ar_hoc results of None \<Rightarrow> None | Some h \<Rightarrow> hoc_value h);
          bpfZ = map_option bpf_zscore (ar_bpf results);
          ilvZ = map_option rr_zscore (ar_regions results ''Inferior-Lateral-Ventricle'')
      in fallbackBlock
           (normalAgingBlock bpfZ hippoZ hoc
             (earlyMCIBlock hoc hippoZ ilvZ
               (vascularBlock wmZ
                 (frontotemporalBlock caudateZ hippoZ
                   (alzheimerBlock hippoZ hoc amygZ []))))))"

text \<open>
  The Early-MCI confidence as the specification words it: a base level from the HOC value,
  and one step up the scale Low, Low-Moderate, Moderate, High. The second function is the
  step that stops at Moderate.
\<close>

definition baseConfidence :: "real \<Rightarrow> string" where
  "baseConfidence h =
     (if h < 0.70 then ''Moderate'' else if h < 0.75 then ''Low-Moderate'' else ''Low'')"

definition confidenceScale :: "string list" where
  "confidenceScale = [''Low'', ''Low-Moderate'', ''Moderate'', ''High'']"

fun nextOnScale :: "string list \<Rightarrow> string \<Rightarrow> string" where
  "nextOnScale (a # b # rest) c = (if c = a then b else nextOnScale (b # rest) c)"
| "nextOnScale scale c = c"

definition raiseOneLevel :: "string \<Rightarrow> string" where
  "raiseOneLevel c = nextOnScale confidenceScale c"

definition raiseToModerateAtMost :: "string \<Rightarrow> string" where
  "raiseToModerateAtMost c = nextOnScale (butlast confidenceScale) c"

text \<open>A number that may be absent, compared as the specification reads it: an absent
  value satisfies no comparison.\<close>

definition below :: "real option \<Rightarrow> real \<Rightarrow> bool" where
  "below v c = (case v of None \<Rightarrow> False | Some x \<Rightarrow> x < c)"

definition exceeds :: "real option \<Rightarrow> real \<Rightarrow> bool" where
  "exceeds v c = (case v of None \<Rightarrow> False | Some x \<Rightarrow> x > c)"

definition undefined_or_ge :: "real option \<Rightarrow> real \<Rightarrow> bool" where
  "undefined_or_ge v c = (case v of None \<Rightarrow> True | Some x \<Rightarrow> x \<ge> c)"

definition hocValue_of :: "analysis_results \<Rightarrow> real option" where
  "hocValue_of results = (case ar_hoc results of None \<Rightarrow> None | Some h \<Rightarrow> hoc_value h)"

definition effectiveZ_of :: "analysis_results \<Rightarrow> string \<Rightarrow> real option" where
  "effectiveZ_of results region = map_option rr_effectiveZscore (ar_regions results region)"

definition zscore_of :: "analysis_results \<Rightarrow> string \<Rightarrow> real option" where
  "zscore_of results region = map_option rr_zscore (ar_regions results region)"

section \<open>Atrophy risk\<close>

text \<open>
  Step 3 and step 4 of \<^verbatim>\<open>analyzeAtrophy\<close>. The loop over the resolved regions keeps three
  counters and \<^verbatim>\<open>hippocampusZscore\<close>; per region it reads the label and the value
  \<^verbatim>\<open>effectiveZ\<close> computed just before, which is the input here. Step 4 reads the
  counters, \<^verbatim>\<open>analysisResults.hoc?.value\<close> and \<^verbatim>\<open>analysisResults.bpf?.zscore\<close>.
\<close>

text \<open>The guard \<^verbatim>\<open>x !== null && x < c\<close>.\<close>

definition notnull_lt :: "real option \<Rightarrow> real \<Rightarrow> bool" where
  "notnull_lt x c = (case x of None \<Rightarrow> False | Some v \<Rightarrow> v < c)"

record risk_state =
  criticalAtrophyCount :: nat
  moderateAtrophyCount :: nat
  mildAtrophyCount :: nat
  hippocampusZscore :: "real option"

definition trackRegion :: "string \<times> real \<Rightarrow> risk_state \<Rightarrow> risk_state" where
  "trackRegion entry st =
     (case entry of (region, effectiveZ) \<Rightarrow>
      let st1 = (if String_includes (toLowerCase region) ''hippocampus''
                 then st\<lparr>hippocampusZscore := Some effectiveZ\<rparr> else st)
      in if effectiveZ < -2.5 then st1\<lparr>criticalAtrophyCount := criticalAtrophyCount st1 + 1\<rparr>
         else if effectiveZ < -2.0 then st1\<lparr>moderateAtrophyCount := moderateAtrophyCount st1 + 1\<rparr>
         else if effectiveZ < -1.5 then st1\<lparr>mildAtrophyCount := mildAtrophyCount st1 + 1\<rparr>
         else st1)"

definition trackRegions :: "(string \<times> real) list \<Rightarrow> risk_state" where
  "trackRegions regions =
     fold trackRegion regions
       \<lparr>criticalAtrophyCount = 0, moderateAtrophyCount = 0, mildAtrophyCount = 0,
        hippocampusZscore = None\<rparr>"

record risk_verdict =
  atrophyRisk :: string
  riskDescription :: string

definition overallRisk :: "risk_state \<Rightarrow> real option \<Rightarrow> real option \<Rightarrow> risk_verdict" where
  "overallRisk st hocValue bpfZscore =
     (if criticalAtrophyCount st \<ge> 2 \<or> notnull_lt (hippocampusZscore st) (-2.5) \<or> and_lt hocValue 0.60 then
        \<lparr>atrophyRisk = ''High'',
         riskDescription = ''Significant atrophy detected - clinical correlation strongly recommended''\<rparr>
      else if moderateAtrophyCount st \<ge> 1 \<or> criticalAtrophyCount st \<ge> 1 \<or>
              notnull_lt (hippocampusZscore st) (-2.0) \<or> and_lt hocValue 0.70 then
        \<lparr>atrophyRisk = ''Moderate'',
         riskDescription = ''Notable atrophy present - consider neuropsychological evaluation''\<rparr>
      else if mildAtrophyCount st \<ge> 2 \<or> notnull_lt (hippocampusZscore st) (-1.5) \<or>
              and_lt bpfZscore (-1.5) \<or> and_lt hocValue 0.75 then
        \<lparr>atrophyRisk = ''Mild'',
         riskDescription =
           (if and_lt hocValue 0.75
            then ''Subtle medial temporal changes detected (HOC reduced) - neuropsychological evaluation recommended''
            else ''Mild volume reductions detected - monitoring recommended'')\<rparr>
      else if mildAtrophyCount st \<ge> 1 \<or> notnull_lt (hippocampusZscore st) (-1.0) \<or>
              and_lt hocValue 0.80 then
        \<lparr>atrophyRisk = ''Low-Normal'',
         riskDescription =
           (if and_lt hocValue 0.80
            then ''HOC in low-normal range - consider baseline for future comparison''
            else ''Volumes in low-normal range for age'')\<rparr>
      else
        \<lparr>atrophyRisk = ''Normal'',
         riskDescription = ''Volumes within expected range for age and sex''\<rparr>)"

definition analyzeAtrophy_risk ::
  "(string \<times> real) list \<Rightarrow> real option \<Rightarrow> real option \<Rightarrow> risk_verdict" where
  "analyzeAtrophy_risk regions hocValue bpfZscore = overallRisk (trackRegions regions) hocValue bpfZscore"

text \<open>
  The verdict as the specification words it: every region falls in at most one severity
  bucket, the most severe it qualifies for; an ordered table of rules; the first rule whose
  condition holds gives the verdict, and Normal when none does.
\<close>

record risk_inputs =
  ri_critical :: nat
  ri_moderate :: nat
  ri_mild :: nat
  ri_hippoZ :: "real option"
  ri_hoc :: "real option"
  ri_bpfZ :: "real option"

definition hippocampalZ :: "(string \<times> real) list \<Rightarrow> real option" where
  "hippocampalZ regions =
     (case filter (\<lambda>e. containsCI (fst e) ''hippocampus'') regions of
        [] \<Rightarrow> None
      | e # es \<Rightarrow> Some (snd (last (e # es))))"

definition riskInputs :: "(string \<times> real) list \<Rightarrow> real option \<Rightarrow> real option \<Rightarrow> risk_inputs" where
  "riskInputs regions hoc bpfZ =
     \<lparr>ri_critical = length (filter (\<lambda>e. snd e < -2.5) regions),
      ri_moderate = length (filter (\<lambda>e. -2.5 \<le> snd e \<and> snd e < -2.0) regions),
      ri_mild = length (filter (\<lambda>e. -2.0 \<le> snd e \<and> snd e < -1.5) regions),
      ri_hippoZ = hippocampalZ regions,
      ri_hoc = hoc,
      ri_bpfZ = bpfZ\<rparr>"

definition highCondition :: "risk_inputs \<Rightarrow> bool" where
  "highCondition i = (ri_critical i \<ge> 2 \<or> below (ri_hippoZ i) (-2.5) \<or> below (ri_hoc i) 0.60)"

definition moderateCondition :: "risk_inputs \<Rightarrow> bool" where
  "moderateCondition i =
     (ri_moderate i \<ge> 1 \<or> ri_critical i \<ge> 1 \<or> below (ri_hippoZ i) (-2.0) \<or> below (ri_hoc i) 0.70)"

definition mildCondition :: "risk_inputs \<Rightarrow> bool" where
  "mildCondition i =
     (ri_mild i \<ge> 2 \<or> below (ri_hippoZ i) (-1.5) \<or> below (ri_bpfZ i) (-1.5) \<or> below (ri_hoc i) 0.75)"

definition lowNormalCondition :: "risk_inputs \<Rightarrow> bool" where
  "lowNormalCondition i = (ri_mild i \<ge> 1 \<or> below (ri_hippoZ i) (-1.0) \<or> below (ri_hoc i) 0.80)"

definition riskRules :: "(string \<times> (risk_inputs \<Rightarrow> bool)) list" where
  "riskRules =
     [(''High'', highCondition), (''Moderate'', moderateCondition),
      (''Mild'', mildCondition), (''Low-Normal'', lowNormalCondition)]"

fun firstMatch :: "(string \<times> (risk_inputs \<Rightarrow> bool)) list \<Rightarrow> risk_inputs \<Rightarrow> string" where
  "firstMatch [] i = ''Normal''"
| "firstMatch ((verdict, condition) # rules) i = (if condition i then verdict else firstMatch rules i)"

section \<open>Two analyses used as concrete inputs\<close>

text \<open>
  The first is a report with a reduced HOC and an enlarged temporal horn. The second is an
  unremarkable 70-year-old man: its HOC and BPF objects are the ones \<^verbatim>\<open>calculateHOC\<close> and
  \<^verbatim>\<open>calculateBPF\<close> build from the volumes, the latter at the ICV that \<^verbatim>\<open>estimateICV\<close>
  returns for them.
\<close>

definition earlyMCI_example :: analysis_results where
  "earlyMCI_example =
     \<lparr>ar_regions =
        [''Hippocampus'' \<mapsto> \<lparr>rr_volume = 6500, rr_zscore = -0.5, rr_effectiveZscore = -0.5\<rparr>,
         ''Inferior-Lateral-Ventricle'' \<mapsto> \<lparr>rr_volume = 3500, rr_zscore = 1.0, rr_effectiveZscore = -1.0\<rparr>],
      ar_hoc = Some (calculateHOC [(''Hippocampus'', 6500), (''Inferior-Lateral-Ventricle'', 3500)] 70),
      ar_bpf = Some \<lparr>bpf_value = 0.75, bpf_zscore = -0.2, bpf_percentile = 42,
                     bpf_interpretation = ''Normal'', bpf_expected = 0.76,
                     bpf_brainVolume = 1031500, bpf_icv = 1375333\<rparr>\<rparr>"

definition normalAging_volumes :: volumes where
  "normalAging_volumes =
     [(''Cerebral-White-Matter'', 450000), (''Cerebral-Cortex'', 480000),
      (''Cerebellum-Cortex'', 95000), (''Lateral-Ventricle'', 30000),
      (''Inferior-Lateral-Ventricle'', 700), (''Hippocampus'', 7000)]"

definition normalAging_example :: analysis_results where
  "normalAging_example =
     \<lparr>ar_regions =
        [''Cerebral-White-Matter'' \<mapsto> \<lparr>rr_volume = 450000, rr_zscore = 1.83, rr_effectiveZscore = 1.83\<rparr>,
         ''Inferior-Lateral-Ventricle'' \<mapsto> \<lparr>rr_volume = 700, rr_zscore = -2.54, rr_effectiveZscore = 2.54\<rparr>,
         ''Hippocampus'' \<mapsto> \<lparr>rr_volume = 7000, rr_zscore = 1.14, rr_effectiveZscore = 1.14\<rparr>],
      ar_hoc = Some (calculateHOC normalAging_volumes 70),
      ar_bpf = Some (calculateBPF normalAging_volumes
                       (real_of_int (estimateICV normalAging_volumes 70 male)) 70)\<rparr>"

section \<open>Properties of the z-score interpretation\<close>

text \<open>
  Claim C6. For every effective z-score the interpretation bucket is normal iff the score is
  at least -1.0, low-normal iff it lies in [-1.5, -1.0), mild iff in [-2.0, -1.5), moderate
  iff in [-2.5, -2.0) and severe iff below -2.5; each of the four boundary values belongs
  to the better bucket. The effective z-score is the z-score, negated for an inverted
  region.
\<close>

theorem interpretZScore_buckets:
  fixes zscore :: real and invertZscore :: bool
  defines "e \<equiv> (if invertZscore then - zscore else zscore)"
  shows "(interpretZScore zscore invertZscore = ''normal'' \<longleftrightarrow> e \<ge> -1.0)
       \<and> (interpretZScore zscore invertZscore = ''low-normal'' \<longleftrightarrow> -1.5 \<le> e \<and> e < -1.0)
       \<and> (interpretZScore zscore invertZscore = ''mild'' \<longleftrightarrow> -2.0 \<le> e \<and> e < -1.5)
       \<and> (interpretZScore zscore invertZscore = ''moderate'' \<longleftrightarrow> -2.5 \<le> e \<and> e < -2.0)
       \<and> (interpretZScore zscore invertZscore = ''severe'' \<longleftrightarrow> e < -2.5)
       \<and> interpretZScore (-1.0) False = ''normal''
       \<and> interpretZScore (-1.5) False = ''low-normal''
       \<and> interpretZScore (-2.0) False = ''mild''
       \<and> interpretZScore (-2.5) False = ''moderate''"
  unfolding e_def interpretZScore_def Let_def by auto

theorem interpretZScore_buckets_witness:
  "interpretZScore 1.5 True = ''low-normal'' \<and> interpretZScore (-2.51) False = ''severe''"
  using interpretZScore_buckets [of "1.5" True] interpretZScore_buckets [of "-2.51" False]
  by simp

section \<open>Properties of the ICV normalisation\<close>

text \<open>
  Claim C8. For every region with a tabulated regression coefficient, every sex and every
  non-negative volume, normalising at an ICV equal to the reference mean of that sex returns
  the volume unchanged: the residual term is zero and the floor at 0 leaves a non-negative
  volume alone.
\<close>

theorem applyICVNormalization_at_mean:
  assumes "map_of ICV_REGRESSION_COEFFICIENTS region = Some coef" and "0 \<le> volume"
  shows "coef_b coef * (ICV_REFERENCE_mean sx - ICV_REFERENCE_mean sx) = 0
       \<and> applyICVNormalization volume region (ICV_REFERENCE_mean sx) sx = volume"
  using assms by (simp add: applyICVNormalization_def)

theorem applyICVNormalization_at_mean_witness:
  "map_of ICV_REGRESSION_COEFFICIENTS ''Hippocampus'' = Some \<lparr>coef_b = 0.0037, coef_r2 = 0.15\<rparr>
   \<and> (0 :: real) \<le> 6000
   \<and> applyICVNormalization 6000 ''Hippocampus'' (ICV_REFERENCE_mean female) female = 6000"
proof -
  have c: "map_of ICV_REGRESSION_COEFFICIENTS ''Hippocampus'' = Some \<lparr>coef_b = 0.0037, coef_r2 = 0.15\<rparr>"
    by (simp add: ICV_REGRESSION_COEFFICIENTS_def)
  have v: "(0 :: real) \<le> 6000" by simp
  from applyICVNormalization_at_mean [OF c v, of female] c show ?thesis by simp
qed

section \<open>Properties of the hippocampal occupancy score\<close>

text \<open>
  Claim C7. For every volume table whose hippocampus volume is 0 or absent, and every age,
  \<^verbatim>\<open>calculateHOC\<close> returns the object with \<^verbatim>\<open>value = null\<close> and the explanatory
  interpretation string and nothing else: no z-score, percentile, conversion risk or any
  other field. The function is total, so it returns on every such input.
\<close>

theorem calculateHOC_degenerate:
  assumes "map_of volumes ''Hippocampus'' = None \<or> map_of volumes ''Hippocampus'' = Some 0"
  shows "calculateHOC volumes age =
           \<lparr>hoc_value = None,
            hoc_interpretation = ''Unable to calculate - hippocampus not segmented'',
            hoc_zscore = None, hoc_percentile = None, hoc_description = None,
            hoc_conversionRisk = None, hoc_conversionRate = None,
            hoc_hippoVolume = None, hoc_ilvVolume = None, hoc_expected = None\<rparr>"
  using assms by (auto simp add: calculateHOC_def volume_or_zero_def)

theorem calculateHOC_degenerate_witness:
  "hoc_value (calculateHOC [(''Hippocampus'', 0), (''Inferior-Lateral-Ventricle'', 1500)] 70) = None
   \<and> hoc_interpretation (calculateHOC [(''Inferior-Lateral-Ventricle'', 1500)] 70)
       = ''Unable to calculate - hippocampus not segmented''"
  using calculateHOC_degenerate [of "[(''Hippocampus'', 0), (''Inferior-Lateral-Ventricle'', 1500)]" 70]
        calculateHOC_degenerate [of "[(''Inferior-Lateral-Ventricle'', 1500)]" 70]
  by simp

lemma Math_round_unit_interval:
  assumes "0 \<le> x" "x \<le> 1"
  shows "0 \<le> real_of_int (Math_round (x * 1000)) / 1000
       \<and> real_of_int (Math_round (x * 1000)) / 1000 \<le> 1"
proof -
  have "0 \<le> Math_round (x * 1000)"
    using assms unfolding Math_round_def by simp
  moreover have "Math_round (x * 1000) \<le> 1000"
  proof -
    have "x * 1000 + 1 / 2 < 1001" using assms by simp
    then have "\<lfloor>x * 1000 + 1 / 2\<rfloor> < 1001" by (simp add: floor_less_iff)
    then show ?thesis unfolding Math_round_def by simp
  qed
  ultimately show ?thesis by simp
qed

text \<open>
  Claim C10. For every volume table with a hippocampus volume above 0 and a non-negative
  inferior-lateral-ventricle volume (an absent one reads as 0), the HOC value returned is
  not null and lies between 0 and 1 inclusive: it is hippocampus / (hippocampus + ILV), a
  quantity in (0, 1], rounded to three decimals.
\<close>

theorem calculateHOC_value_range:
  assumes hippo: "map_of volumes ''Hippocampus'' = Some hippo" "0 < hippo"
      and ilv: "0 \<le> volume_or_zero volumes ''Inferior-Lateral-Ventricle''"
  shows "\<exists>v. hoc_value (calculateHOC volumes age) = Some v \<and> 0 \<le> v \<and> v \<le> 1
            \<and> v = real_of_int (Math_round
                    (hippo / (hippo + volume_or_zero volumes ''Inferior-Lateral-Ventricle'') * 1000)) / 1000
            \<and> 0 < hippo / (hippo + volume_or_zero volumes ''Inferior-Lateral-Ventricle'')
            \<and> hippo / (hippo + volume_or_zero volumes ''Inferior-Lateral-Ventricle'') \<le> 1"
proof -
  define ilvVol where "ilvVol = volume_or_zero volumes ''Inferior-Lateral-Ventricle''"
  define hoc where "hoc = hippo / (hippo + ilvVol)"
  have hv: "volume_or_zero volumes ''Hippocampus'' = hippo"
    using hippo by (simp add: volume_or_zero_def)
  have pos: "0 < hoc" and le1: "hoc \<le> 1"
    using hippo(2) ilv unfolding hoc_def ilvVol_def by (simp_all add: field_simps)
  have val: "hoc_value (calculateHOC volumes age) = Some (real_of_int (Math_round (hoc * 1000)) / 1000)"
    using hippo(2) unfolding calculateHOC_def hv hoc_def ilvVol_def Let_def by simp
  have rng: "0 \<le> real_of_int (Math_round (hoc * 1000)) / 1000
           \<and> real_of_int (Math_round (hoc * 1000)) / 1000 \<le> 1"
    using Math_round_unit_interval [of hoc] pos le1 by simp
  show ?thesis
    apply (rule exI [of _ "real_of_int (Math_round (hoc * 1000)) / 1000"])
    using val rng pos le1 unfolding hoc_def ilvVol_def by blast
qed

theorem calculateHOC_value_range_witness:
  "hoc_value (calculateHOC [(''Hippocampus'', 7000), (''Inferior-Lateral-Ventricle'', 700)] 70) = Some 0.909"
proof -
  have a: "map_of [(''Hippocampus'', 7000 :: real), (''Inferior-Lateral-Ventricle'', 700)] ''Hippocampus'' = Some 7000"
    by simp
  have b: "(0 :: real) < 7000" by simp
  have c: "0 \<le> volume_or_zero [(''Hippocampus'', 7000), (''Inferior-Lateral-Ventricle'', 700)] ''Inferior-Lateral-Ventricle''"
    by (simp add: volume_or_zero_def)
  from calculateHOC_value_range [OF a b c, of 70] show ?thesis
    by (auto simp add: volume_or_zero_def Math_round_def)
qed

section \<open>Properties of the MTA age threshold\<close>

lemma MTA_ageThreshold_below_100:
  assumes "age < 100"
  shows "mta_ageThreshold (calculateMTAScore volumes hippoZscore age) =
           (if age < 65 then 1.0 else if age < 75 then 1.5 else if age < 85 then 2.0 else 2.5)"
  using assms by (simp add: calculateMTAScore_def Let_def MTA_ageThresholds_def)

lemma MTA_ageThreshold_from_100:
  assumes "100 \<le> age"
  shows "mta_ageThreshold (calculateMTAScore volumes hippoZscore age) = 2.0"
  using assms by (simp add: calculateMTAScore_def Let_def MTA_ageThresholds_def)

lemma MTA_isAbnormal_iff:
  "mta_isAbnormal (calculateMTAScore volumes hippoZscore age) \<longleftrightarrow>
     mta_score (calculateMTAScore volumes hippoZscore age)
       > mta_ageThreshold (calculateMTAScore volumes hippoZscore age)"
  by (simp add: calculateMTAScore_def Let_def)

text \<open>
  Claim C3. The claim gives the abnormal threshold 2.5 to every age from 85 on, with the
  score abnormal iff it exceeds the threshold. The loop over the threshold table finds no
  entry for an age of 100 or more and keeps the initial value 2.0: at age 100 a score of
  2.5 (ratio bucket 3, z-score bucket 2) is measured against 2.0 and flagged abnormal.
\<close>

theorem calculateMTAScore_age_100:
  "mta_score (calculateMTAScore [(''Hippocampus'', 5000), (''Inferior-Lateral-Ventricle'', 2000)] (Some (-1.2)) 100) = 2.5
   \<and> mta_ageThreshold (calculateMTAScore [(''Hippocampus'', 5000), (''Inferior-Lateral-Ventricle'', 2000)] (Some (-1.2)) 100) = 2.0
   \<and> mta_isAbnormal (calculateMTAScore [(''Hippocampus'', 5000), (''Inferior-Lateral-Ventricle'', 2000)] (Some (-1.2)) 100)"
  by (simp add: calculateMTAScore_def Let_def volume_or_zero_def MTA_qmtaToScore_def MTA_zscoreToScore_def
        MTA_ageThresholds_def MTA_scores_def Math_round_def)

section \<open>Properties of the ICV estimate\<close>

text \<open>The substring test of the source against a position-by-position reading.\<close>

lemma String_includes_iff:
  "String_includes s sub \<longleftrightarrow> (\<exists>i < Suc (length s). take (length sub) (drop i s) = sub)"
proof (induction s)
  case Nil
  then show ?case by auto
next
  case (Cons c cs)
  have "(\<exists>i < Suc (length (c # cs)). take (length sub) (drop i (c # cs)) = sub) \<longleftrightarrow>
        (take (length sub) (c # cs) = sub \<or> (\<exists>j < Suc (length cs). take (length sub) (drop j cs) = sub))"
  proof
    assume "\<exists>i < Suc (length (c # cs)). take (length sub) (drop i (c # cs)) = sub"
    then obtain i where i: "i < Suc (length (c # cs))" "take (length sub) (drop i (c # cs)) = sub"
      by blast
    show "take (length sub) (c # cs) = sub \<or> (\<exists>j < Suc (length cs). take (length sub) (drop j cs) = sub)"
    proof (cases i)
      case 0
      with i show ?thesis by simp
    next
      case (Suc j)
      with i have "j < Suc (length cs)" "take (length sub) (drop j cs) = sub" by simp_all
      then show ?thesis by blast
    qed
  next
    assume "take (length sub) (c # cs) = sub \<or> (\<exists>j < Suc (length cs). take (length sub) (drop j cs) = sub)"
    then show "\<exists>i < Suc (length (c # cs)). take (length sub) (drop i (c # cs)) = sub"
    proof
      assume "take (length sub) (c # cs) = sub"
      then have "take (length sub) (drop 0 (c # cs)) = sub" by simp
      then show ?thesis by blast
    next
      assume "\<exists>j < Suc (length cs). take (length sub) (drop j cs) = sub"
      then obtain j where j: "j < Suc (length cs)" "take (length sub) (drop j cs) = sub" by blast
      then have "Suc j < Suc (length (c # cs))" "take (length sub) (drop (Suc j) (c # cs)) = sub"
        by simp_all
      then show ?thesis by blast
    qed
  qed
  with Cons show ?case by simp
qed

lemma list_ex_upt: "list_ex P [0 ..< n] \<longleftrightarrow> (\<exists>i < n. P i)"
  by (induction n) (auto simp add: less_Suc_eq)

lemma containsCI_iff:
  "containsCI label word \<longleftrightarrow> String_includes (toLowerCase label) (toLowerCase word)"
  unfolding containsCI_def list_ex_upt String_includes_iff toLowerCase_def
  by (simp add: take_map drop_map)

lemma toLowerCase_ventricle: "toLowerCase ''ventricle'' = ''ventricle''"
  by (simp add: toLowerCase_def toLowerCase_char_def)

lemma isVentricular_iff:
  "isVentricular label \<longleftrightarrow> String_includes (toLowerCase label) ''ventricle''"
  unfolding isVentricular_def containsCI_iff toLowerCase_ventricle ..

lemma fold_partitionStep:
  "fold partitionStep volumes (a, b) = (a + parenchymalVolume volumes, b + ventricularVolume volumes)"
proof (induction volumes arbitrary: a b)
  case Nil
  then show ?case by (simp add: parenchymalVolume_def ventricularVolume_def)
next
  case (Cons e volumes)
  obtain region volume where e: "e = (region, volume)" by (cases e)
  show ?case
    using Cons [of "fst (partitionStep e (a, b))" "snd (partitionStep e (a, b))"]
    by (simp add: e partitionStep_def isVentricular_iff parenchymalVolume_def ventricularVolume_def)
qed

lemma ageDecade_nearestDecade:
  "min 80 (max 20 (Math_round (age / 10) * 10)) = nearestDecade age"
proof -
  consider "age < 20" | "20 \<le> age" "age \<le> 80" | "80 < age" by linarith
  then show ?thesis
  proof cases
    case 1
    then have "age / 10 + 1 / 2 < 3" by simp
    then have "\<lfloor>age / 10 + 1 / 2\<rfloor> < 3" by (simp add: floor_less_iff)
    then show ?thesis using 1 by (simp add: Math_round_def nearestDecade_def round_def)
  next
    case 2
    then have "2 \<le> age / 10 + 1 / 2" "age / 10 + 1 / 2 < 9" by simp_all
    then have "2 \<le> \<lfloor>age / 10 + 1 / 2\<rfloor>" "\<lfloor>age / 10 + 1 / 2\<rfloor> < 9"
      by (simp_all add: le_floor_iff floor_less_iff)
    then show ?thesis using 2 by (simp add: Math_round_def nearestDecade_def round_def)
  next
    case 3
    then have "8 \<le> age / 10 + 1 / 2" by simp
    then have "8 \<le> \<lfloor>age / 10 + 1 / 2\<rfloor>" by (simp add: le_floor_iff)
    then show ?thesis using 3 by (simp add: Math_round_def nearestDecade_def round_def)
  qed
qed

lemma nearestDecade_anchor:
  "nearestDecade age \<in> {20, 30, 40, 50, 60, 70, 80}"
proof -
  define k where "k = round (min 80 (max 20 age) / 10)"
  have "2 \<le> min 80 (max 20 age) / 10 + 1 / 2" "min 80 (max 20 age) / 10 + 1 / 2 < 9"
    by (simp_all add: min_def max_def)
  then have "2 \<le> k" "k < 9"
    unfolding k_def round_def by (simp_all add: le_floor_iff floor_less_iff)
  then have "k \<in> {2, 3, 4, 5, 6, 7, 8}" by auto
  then show ?thesis unfolding nearestDecade_def k_def [symmetric] by auto
qed

lemma BPF_lookup_anchor:
  assumes "d \<in> {20, 30, 40, 50, 60, 70, 80}"
  shows "\<exists>e. map_of BPF_NORMATIVE_byAge d = Some e \<and> norm_mean e \<noteq> 0"
  using assms by (auto simp add: BPF_NORMATIVE_byAge_def)

lemma expectedBPF_code:
  "(case map_of BPF_NORMATIVE_byAge (nearestDecade age) of
      None \<Rightarrow> 0.76
    | Some e \<Rightarrow> if norm_mean e = 0 then 0.76 else norm_mean e) = expectedBPF_spec age"
  using BPF_lookup_anchor [OF nearestDecade_anchor [of age]]
  by (auto simp add: expectedBPF_spec_def)

lemma estimateICV_closed_form:
  "estimateICV volumes age sx =
     Math_round (max (min (max (if parenchymalVolume volumes / expectedBPF_spec age < ICV_REFERENCE_mean sx - 3 * ICV_REFERENCE_sd sx
                                 \<or> parenchymalVolume volumes / expectedBPF_spec age > ICV_REFERENCE_mean sx + 3 * ICV_REFERENCE_sd sx
                               then (parenchymalVolume volumes / expectedBPF_spec age
                                      + (parenchymalVolume volumes + ventricularVolume volumes) * 1.12) / 2
                               else parenchymalVolume volumes / expectedBPF_spec age)
                              ((parenchymalVolume volumes + ventricularVolume volumes) * 1.05))
                         (ICV_REFERENCE_mean sx + 3 * ICV_REFERENCE_sd sx))
                    (ICV_REFERENCE_mean sx - 3 * ICV_REFERENCE_sd sx))"
  unfolding estimateICV_def
  apply (simp only: fold_partitionStep prod.case Let_def ageDecade_nearestDecade expectedBPF_code add_0)
  done

lemma clamp_order:
  fixes x lo hi s :: real
  shows "max (min (max x s) hi) lo = max lo (min hi (max s x))"
  by (simp add: max.commute min.commute)

lemma band_cases:
  fixes x lo hi a b :: real
  shows "(if x < lo \<or> x > hi then a else b) = (if lo \<le> x \<and> x \<le> hi then b else a)"
  by auto

text \<open>
  Claim C1. For every volume table, age and sex, \<^verbatim>\<open>estimateICV\<close> computes what the
  specification describes: volumes split into ventricular (label contains ``ventricle'',
  case-insensitive) and parenchymal; primary estimate parenchymal / expected BPF at the
  nearest age decade clamped to 20..80; replaced by the average with segmented total x 1.12
  exactly when it lies outside reference mean \<open>\<plusminus>\<close> 3 SD; then floor at segmented total x 1.05,
  ceiling at the upper bound, floor at the lower bound, and rounding to the nearest integer.
\<close>

theorem estimateICV_refines_spec:
  "estimateICV volumes age sx = estimateICV_spec volumes age sx"
  unfolding estimateICV_closed_form estimateICV_spec_def
  apply (simp only: Let_def Math_round_def round_def clamp_order band_cases)
  done

theorem estimateICV_refines_spec_witness:
  "estimateICV_spec [(''Cerebral-White-Matter'', 450000), (''Cerebral-Cortex'', 480000),
                (''Cerebellum-Cortex'', 95000), (''Lateral-Ventricle'', 30000),
                (''Hippocampus'', 7000)] 70 male = 1357895"
proof -
  have f: "fold partitionStep [(''Cerebral-White-Matter'', 450000), (''Cerebral-Cortex'', 480000),
                (''Cerebellum-Cortex'', 95000), (''Lateral-Ventricle'', 30000),
                (''Hippocampus'', 7000)] (0, 0) = (1032000, 30000)"
    by (simp add: partitionStep_def toLowerCase_def toLowerCase_char_def)
  have d: "min 80 (max 20 (Math_round (70 / 10) * 10)) = 70"
    by (simp add: Math_round_def)
  have e: "map_of BPF_NORMATIVE_byAge 70 = Some \<lparr>norm_mean = 0.76, norm_sd = 0.05\<rparr>"
    by (simp add: BPF_NORMATIVE_byAge_def)
  have "estimateICV [(''Cerebral-White-Matter'', 450000), (''Cerebral-Cortex'', 480000),
                (''Cerebellum-Cortex'', 95000), (''Lateral-Ventricle'', 30000),
                (''Hippocampus'', 7000)] 70 male = 1357895"
    unfolding estimateICV_def f d e prod.case option.case Let_def
    by (simp add: Math_round_def)
  with estimateICV_refines_spec
         [of "[(''Cerebral-White-Matter'', 450000), (''Cerebral-Cortex'', 480000),
               (''Cerebellum-Cortex'', 95000), (''Lateral-Ventricle'', 30000),
               (''Hippocampus'', 7000)]" 70 male]
  show ?thesis by simp
qed

section \<open>Properties of the atrophy-risk verdict\<close>

lemma toLowerCase_hippocampus: "toLowerCase ''hippocampus'' = ''hippocampus''"
  by (simp add: toLowerCase_def toLowerCase_char_def)

lemma includes_hippocampus_iff:
  "String_includes (toLowerCase region) ''hippocampus'' \<longleftrightarrow> containsCI region ''hippocampus''"
  unfolding containsCI_iff toLowerCase_hippocampus ..

lemma hippocampalZ_Cons:
  "hippocampalZ (e # regions) =
     (case hippocampalZ regions of
        Some z \<Rightarrow> Some z
      | None \<Rightarrow> if containsCI (fst e) ''hippocampus'' then Some (snd e) else None)"
  by (simp add: hippocampalZ_def split: list.splits)

lemma fold_trackRegion:
  "fold trackRegion regions st =
     \<lparr>criticalAtrophyCount = criticalAtrophyCount st + length (filter (\<lambda>e. snd e < -2.5) regions),
      moderateAtrophyCount = moderateAtrophyCount st
         + length (filter (\<lambda>e. -2.5 \<le> snd e \<and> snd e < -2.0) regions),
      mildAtrophyCount = mildAtrophyCount st
         + length (filter (\<lambda>e. -2.0 \<le> snd e \<and> snd e < -1.5) regions),
      hippocampusZscore = (case hippocampalZ regions of
                             None \<Rightarrow> hippocampusZscore st
                           | Some z \<Rightarrow> Some z)\<rparr>"
proof (induction regions arbitrary: st)
  case Nil
  then show ?case by (simp add: hippocampalZ_def)
next
  case (Cons e regions)
  obtain region z where e: "e = (region, z)" by (cases e)
  show ?case
    unfolding fold_simps Cons [of "trackRegion e st"] hippocampalZ_Cons
    by (simp add: e trackRegion_def Let_def includes_hippocampus_iff split: option.splits)
qed

lemma trackRegions_riskInputs:
  "criticalAtrophyCount (trackRegions regions) = ri_critical (riskInputs regions hoc bpfZ)
   \<and> moderateAtrophyCount (trackRegions regions) = ri_moderate (riskInputs regions hoc bpfZ)
   \<and> mildAtrophyCount (trackRegions regions) = ri_mild (riskInputs regions hoc bpfZ)
   \<and> hippocampusZscore (trackRegions regions) = ri_hippoZ (riskInputs regions hoc bpfZ)"
  unfolding trackRegions_def fold_trackRegion riskInputs_def
  by (simp split: option.splits)

lemma notnull_lt_below: "notnull_lt x c = below x c"
  by (simp add: notnull_lt_def below_def)

lemma and_lt_below:
  assumes "x \<noteq> Some 0 \<or> c \<le> 0"
  shows "and_lt x c = below x c"
  using assms by (auto simp add: and_lt_def truthy_def below_def split: option.splits)

lemma buckets_exclusive:
  "length (filter (\<lambda>e. snd e < -2.5) regions)
     + length (filter (\<lambda>e. -2.5 \<le> snd e \<and> snd e < -2.0) regions)
     + length (filter (\<lambda>e. -2.0 \<le> snd e \<and> snd e < -1.5) regions)
   = length (filter (\<lambda>e. snd e < -1.5) (regions :: (string \<times> real) list))"
  by (induction regions) auto

lemma containsCI_Hippocampus: "containsCI ''Hippocampus'' ''hippocampus''"
  by (simp add: containsCI_iff toLowerCase_def toLowerCase_char_def)

lemma containsCI_Amygdala: "\<not> containsCI ''Amygdala'' ''hippocampus''"
  by (simp add: containsCI_iff toLowerCase_def toLowerCase_char_def)

text \<open>
  Claim C2, as amended. Whenever the HOC value is absent or not zero, the verdict is that of
  the first matching rule in the order High, Moderate, Mild, Low-Normal, else Normal, over
  the listed conditions, the three region counts being mutually exclusive (together they
  count each region below -1.5 once); in particular a report that meets a Moderate
  condition and no High condition gets Moderate, whether or not it also meets a Mild
  condition.
\<close>

theorem atrophyRisk_first_match:
  assumes "hocValue \<noteq> Some 0"
  shows "atrophyRisk (analyzeAtrophy_risk regions hocValue bpfZscore)
           = firstMatch riskRules (riskInputs regions hocValue bpfZscore)
       \<and> (moderateCondition (riskInputs regions hocValue bpfZscore)
            \<and> \<not> highCondition (riskInputs regions hocValue bpfZscore)
          \<longrightarrow> atrophyRisk (analyzeAtrophy_risk regions hocValue bpfZscore) = ''Moderate'')
       \<and> ri_critical (riskInputs regions hocValue bpfZscore)
            + ri_moderate (riskInputs regions hocValue bpfZscore)
            + ri_mild (riskInputs regions hocValue bpfZscore)
          = length (filter (\<lambda>e. snd e < -1.5) regions)"
proof -
  define i where "i = riskInputs regions hocValue bpfZscore"
  define st where "st = trackRegions regions"
  have st: "criticalAtrophyCount st = ri_critical i" "moderateAtrophyCount st = ri_moderate i"
    "mildAtrophyCount st = ri_mild i" "hippocampusZscore st = ri_hippoZ i"
    using trackRegions_riskInputs [of regions hocValue bpfZscore] unfolding st_def i_def by simp_all
  have io: "ri_hoc i = hocValue" "ri_bpfZ i = bpfZscore"
    unfolding i_def riskInputs_def by simp_all
  have hoc: "\<And>c. and_lt hocValue c = below hocValue c"
    using assms by (simp add: and_lt_below)
  have bpf: "and_lt bpfZscore (-1.5) = below bpfZscore (-1.5)"
    by (simp add: and_lt_below)
  have first: "atrophyRisk (overallRisk st hocValue bpfZscore) = firstMatch riskRules i"
    unfolding overallRisk_def riskRules_def firstMatch.simps highCondition_def moderateCondition_def
      mildCondition_def lowNormalCondition_def st io hoc bpf notnull_lt_below
    by simp
  have excl: "ri_critical i + ri_moderate i + ri_mild i = length (filter (\<lambda>e. snd e < -1.5) regions)"
    unfolding i_def riskInputs_def using buckets_exclusive [of regions] by simp
  have mod: "moderateCondition i \<and> \<not> highCondition i \<longrightarrow> firstMatch riskRules i = ''Moderate''"
    by (simp add: riskRules_def)
  from first excl mod show ?thesis
    unfolding analyzeAtrophy_risk_def st_def [symmetric] i_def [symmetric] by simp
qed

theorem atrophyRisk_first_match_witness:
  "Some (0.72 :: real) \<noteq> Some 0
   \<and> moderateCondition (riskInputs [(''Hippocampus'', -1.6), (''Amygdala'', -2.2)] (Some 0.72) (Some (-0.4)))
   \<and> mildCondition (riskInputs [(''Hippocampus'', -1.6), (''Amygdala'', -2.2)] (Some 0.72) (Some (-0.4)))
   \<and> \<not> highCondition (riskInputs [(''Hippocampus'', -1.6), (''Amygdala'', -2.2)] (Some 0.72) (Some (-0.4)))
   \<and> atrophyRisk (analyzeAtrophy_risk [(''Hippocampus'', -1.6), (''Amygdala'', -2.2)] (Some 0.72) (Some (-0.4)))
       = ''Moderate''"
proof -
  have h: "Some (0.72 :: real) \<noteq> Some 0" by simp
  have i: "riskInputs [(''Hippocampus'', -1.6), (''Amygdala'', -2.2)] (Some 0.72) (Some (-0.4))
             = \<lparr>ri_critical = 0, ri_moderate = 1, ri_mild = 1, ri_hippoZ = Some (-1.6),
                ri_hoc = Some 0.72, ri_bpfZ = Some (-0.4)\<rparr>"
    by (simp add: riskInputs_def hippocampalZ_def containsCI_Hippocampus containsCI_Amygdala)
  from atrophyRisk_first_match [OF h, of "[(''Hippocampus'', -1.6), (''Amygdala'', -2.2)]" "Some (-0.4)"]
  show ?thesis
    unfolding i by (simp add: riskRules_def moderateCondition_def mildCondition_def highCondition_def below_def)
qed

text \<open>
  Claim C2 as stated says that meeting a Moderate and a Mild condition together gives
  Moderate. A hippocampal effective z-score of -3 meets the Moderate condition (below -2.0)
  and the Mild condition (below -1.5), and the verdict is High.
\<close>

theorem atrophyRisk_both_conditions_counterexample:
  "moderateCondition (riskInputs [(''Hippocampus'', -3)] None None)
   \<and> mildCondition (riskInputs [(''Hippocampus'', -3)] None None)
   \<and> atrophyRisk (analyzeAtrophy_risk [(''Hippocampus'', -3)] None None) = ''High''
   \<and> atrophyRisk (analyzeAtrophy_risk [(''Hippocampus'', -3)] None None) \<noteq> ''Moderate''"
proof -
  have i: "riskInputs [(''Hippocampus'', -3)] None None
             = \<lparr>ri_critical = 1, ri_moderate = 0, ri_mild = 0, ri_hippoZ = Some (-3),
                ri_hoc = None, ri_bpfZ = None\<rparr>"
    by (simp add: riskInputs_def hippocampalZ_def containsCI_Hippocampus)
  have t: "trackRegions [(''Hippocampus'', -3)]
             = \<lparr>criticalAtrophyCount = 1, moderateAtrophyCount = 0, mildAtrophyCount = 0,
                hippocampusZscore = Some (-3)\<rparr>"
    by (simp add: trackRegions_def trackRegion_def toLowerCase_def toLowerCase_char_def)
  show ?thesis
    unfolding i analyzeAtrophy_risk_def t
    by (simp add: moderateCondition_def mildCondition_def below_def overallRisk_def notnull_lt_def)
qed

section \<open>Properties of the clinical patterns\<close>

lemma and_gt_exceeds:
  assumes "0 \<le> c"
  shows "and_gt x c = exceeds x c"
  using assms by (auto simp add: and_gt_def truthy_def exceeds_def split: option.splits)

lemma not_or_ge_undefined_or_ge:
  assumes "c \<le> 0"
  shows "not_or_ge x c = undefined_or_ge x c"
  using assms by (auto simp add: not_or_ge_def truthy_def undefined_or_ge_def split: option.splits)

lemma filter_alzheimerBlock:
  "filter (\<lambda>p. pattern p = ''Early MCI / Subtle Medial Temporal Changes'') (alzheimerBlock hippoZ hoc amygZ patterns)
     = filter (\<lambda>p. pattern p = ''Early MCI / Subtle Medial Temporal Changes'') patterns"
  by (simp add: alzheimerBlock_def Let_def case_prod_beta split: option.splits)

lemma filter_frontotemporalBlock:
  "filter (\<lambda>p. pattern p = ''Early MCI / Subtle Medial Temporal Changes'') (frontotemporalBlock caudateZ hippoZ patterns)
     = filter (\<lambda>p. pattern p = ''Early MCI / Subtle Medial Temporal Changes'') patterns"
  by (simp add: frontotemporalBlock_def)

lemma filter_vascularBlock:
  "filter (\<lambda>p. pattern p = ''Early MCI / Subtle Medial Temporal Changes'') (vascularBlock wmZ patterns)
     = filter (\<lambda>p. pattern p = ''Early MCI / Subtle Medial Temporal Changes'') patterns"
  by (simp add: vascularBlock_def)

lemma earlier_blocks_other_names:
  "filter (\<lambda>p. pattern p = ''Early MCI / Subtle Medial Temporal Changes'')
     (vascularBlock wmZ (frontotemporalBlock caudateZ hippoZ (alzheimerBlock hippoZ' hoc amygZ []))) = []"
  by (simp only: filter_vascularBlock filter_frontotemporalBlock filter_alzheimerBlock filter.simps)


lemma later_blocks_keep:
  assumes "patterns \<noteq> []"
  shows "fallbackBlock (normalAgingBlock bpfZ hippoZ hoc patterns) = patterns"
  using assms by (simp add: fallbackBlock_def normalAgingBlock_def)

lemma earlyMCIBlock_fires:
  assumes "hoc = Some h" "h \<noteq> 0" "h < 0.80" "undefined_or_ge hippoZ (-1.5)"
  shows "\<exists>p. earlyMCIBlock hoc hippoZ ilvZ patterns = patterns @ [p]
           \<and> pattern p = ''Early MCI / Subtle Medial Temporal Changes''
           \<and> confidence p = (if exceeds ilvZ 0.5 then raiseToModerateAtMost (baseConfidence h)
                              else baseConfidence h)"
proof -
  have trig: "and_lt hoc 0.80" "not_or_ge hippoZ (-1.5)"
    using assms by (simp_all add: and_lt_def truthy_def not_or_ge_undefined_or_ge)
  have ilv: "and_gt ilvZ 0.5 = exceeds ilvZ 0.5"
    by (simp add: and_gt_exceeds)
  show ?thesis
    unfolding earlyMCIBlock_def ilv using trig assms(1)
    by (simp add: baseConfidence_def raiseToModerateAtMost_def confidenceScale_def)
qed

text \<open>
  Claim C4, as amended. Whenever the HOC value is defined, not zero and below 0.80 and the
  hippocampal effective z-score is undefined or at least -1.5, exactly one Early-MCI pattern
  is emitted; its base confidence is Moderate for HOC below 0.70, Low-Moderate for HOC in
  [0.70, 0.75) and Low otherwise; when the inferior-lateral-ventricle z-score exceeds 0.5
  the confidence goes up one level from Low to Low-Moderate and from Low-Moderate to
  Moderate, and a base of Moderate stays Moderate.
\<close>

theorem earlyMCI_confidence:
  assumes "hocValue_of results = Some h" "h \<noteq> 0" "h < 0.80"
      and "undefined_or_ge (effectiveZ_of results ''Hippocampus'') (-1.5)"
  shows "map confidence
           (filter (\<lambda>p. pattern p = ''Early MCI / Subtle Medial Temporal Changes'')
              (detectClinicalPatterns results))
         = [if exceeds (zscore_of results ''Inferior-Lateral-Ventricle'') 0.5
            then raiseToModerateAtMost (baseConfidence h) else baseConfidence h]"
proof -
  define hippoZ where "hippoZ = map_option rr_effectiveZscore (ar_regions results ''Hippocampus'')"
  define amygZ where "amygZ = map_option rr_effectiveZscore (ar_regions results ''Amygdala'')"
  define caudateZ where "caudateZ = map_option rr_effectiveZscore (ar_regions results ''Caudate'')"
  define wmZ where "wmZ = map_option rr_effectiveZscore (ar_regions results ''Cerebral-White-Matter'')"
  define hoc where "hoc = (case ar_hoc results of None \<Rightarrow> None | Some h \<Rightarrow> hoc_value h)"
  define bpfZ where "bpfZ = map_option bpf_zscore (ar_bpf results)"
  define ilvZ where "ilvZ = map_option rr_zscore (ar_regions results ''Inferior-Lateral-Ventricle'')"
  define before where
    "before = vascularBlock wmZ (frontotemporalBlock caudateZ hippoZ (alzheimerBlock hippoZ hoc amygZ []))"
  have run: "detectClinicalPatterns results
               = fallbackBlock (normalAgingBlock bpfZ hippoZ hoc (earlyMCIBlock hoc hippoZ ilvZ before))"
    unfolding detectClinicalPatterns_def Let_def before_def hippoZ_def amygZ_def caudateZ_def wmZ_def
      hoc_def bpfZ_def ilvZ_def ..
  have h: "hoc = Some h" using assms(1) unfolding hoc_def hocValue_of_def .
  have z: "undefined_or_ge hippoZ (-1.5)" using assms(4) unfolding hippoZ_def effectiveZ_of_def .
  obtain p where p: "earlyMCIBlock hoc hippoZ ilvZ before = before @ [p]"
      "pattern p = ''Early MCI / Subtle Medial Temporal Changes''"
      "confidence p = (if exceeds ilvZ 0.5 then raiseToModerateAtMost (baseConfidence h)
                       else baseConfidence h)"
    using earlyMCIBlock_fires [OF h assms(2,3) z] by blast
  have none: "filter (\<lambda>p. pattern p = ''Early MCI / Subtle Medial Temporal Changes'') before = []"
    unfolding before_def by (rule earlier_blocks_other_names)
  have "detectClinicalPatterns results = before @ [p]"
    unfolding run p(1) by (rule later_blocks_keep) simp
  then show ?thesis
    using none p(2,3) unfolding ilvZ_def zscore_of_def by simp
qed

theorem earlyMCI_confidence_witness:
  "hocValue_of earlyMCI_example = Some 0.65 \<and> (0.65 :: real) \<noteq> 0 \<and> (0.65 :: real) < 0.80
   \<and> undefined_or_ge (effectiveZ_of earlyMCI_example ''Hippocampus'') (-1.5)
   \<and> exceeds (zscore_of earlyMCI_example ''Inferior-Lateral-Ventricle'') 0.5
   \<and> map confidence
         (filter (\<lambda>p. pattern p = ''Early MCI / Subtle Medial Temporal Changes'')
            (detectClinicalPatterns earlyMCI_example)) = [''Moderate'']"
proof -
  have h: "hocValue_of earlyMCI_example = Some 0.65"
    by (simp add: hocValue_of_def earlyMCI_example_def calculateHOC_def volume_or_zero_def Let_def
          Math_round_def)
  have n: "(0.65 :: real) \<noteq> 0" and l: "(0.65 :: real) < 0.80" by simp_all
  have z: "undefined_or_ge (effectiveZ_of earlyMCI_example ''Hippocampus'') (-1.5)"
    by (simp add: undefined_or_ge_def effectiveZ_of_def earlyMCI_example_def)
  have i: "exceeds (zscore_of earlyMCI_example ''Inferior-Lateral-Ventricle'') 0.5"
    by (simp add: exceeds_def zscore_of_def earlyMCI_example_def)
  from earlyMCI_confidence [OF h n l z] h z i show ?thesis
    by (simp add: baseConfidence_def raiseToModerateAtMost_def confidenceScale_def)
qed

text \<open>
  Claim C4 as stated raises the confidence one level on the scale that ends in High. With
  HOC 0.65 the base is Moderate, the inferior-lateral-ventricle z-score 1.0 exceeds 0.5,
  one level up would be High, and the emitted confidence is Moderate.
\<close>

theorem earlyMCI_raise_counterexample:
  "hocValue_of earlyMCI_example = Some 0.65
   \<and> undefined_or_ge (effectiveZ_of earlyMCI_example ''Hippocampus'') (-1.5)
   \<and> exceeds (zscore_of earlyMCI_example ''Inferior-Lateral-Ventricle'') 0.5
   \<and> baseConfidence 0.65 = ''Moderate''
   \<and> raiseOneLevel (baseConfidence 0.65) = ''High''
   \<and> map pattern (detectClinicalPatterns earlyMCI_example)
       = [''Early MCI / Subtle Medial Temporal Changes'']
   \<and> map confidence (detectClinicalPatterns earlyMCI_example) = [''Moderate'']"
proof -
  have h: "hoc_value (calculateHOC [(''Hippocampus'', 6500), (''Inferior-Lateral-Ventricle'', 3500)] 70) = Some 0.65"
    by (simp add: calculateHOC_def volume_or_zero_def Let_def Math_round_def)
  have d: "detectClinicalPatterns earlyMCI_example =
             earlyMCIBlock (Some 0.65) (Some (-0.5)) (Some 1.0) []"
    by (simp add: detectClinicalPatterns_def earlyMCI_example_def h alzheimerBlock_def
          frontotemporalBlock_def vascularBlock_def normalAgingBlock_def fallbackBlock_def
          earlyMCIBlock_def and_lt_def and_gt_def not_or_ge_def truthy_def)
  show ?thesis
    unfolding d
    by (simp add: hocValue_of_def effectiveZ_of_def zscore_of_def earlyMCI_example_def h
          undefined_or_ge_def exceeds_def baseConfidence_def raiseOneLevel_def confidenceScale_def
          earlyMCIBlock_def and_lt_def and_gt_def not_or_ge_def truthy_def)
qed

text \<open>Away from the value 0 of the BPF z-score and of the HOC value, the confidence of the
  Normal-Aging pattern emitted when nothing else fired is the one the specification gives.\<close>

lemma and_ge_defined:
  assumes "x \<noteq> Some 0"
  shows "and_ge x c = (\<exists>z. x = Some z \<and> c \<le> z)"
  using assms by (auto simp add: and_ge_def truthy_def split: option.splits)

lemma not_or_ge_hoc:
  assumes "x \<noteq> Some 0"
  shows "not_or_ge x c = undefined_or_ge x c"
  using assms by (auto simp add: not_or_ge_def truthy_def undefined_or_ge_def split: option.splits)

lemma normalAging_confidence_nonzero:
  assumes "bpfZ \<noteq> Some 0" "hoc \<noteq> Some 0"
  shows "map confidence (fallbackBlock (normalAgingBlock bpfZ hippoZ hoc []))
         = [if (\<exists>z. bpfZ = Some z \<and> -1.5 \<le> z) \<and> undefined_or_ge hippoZ (-1.5)
                \<and> undefined_or_ge hoc 0.80
            then ''High'' else ''Moderate'']"
proof -
  have z: "not_or_ge hippoZ (-1.5) = undefined_or_ge hippoZ (-1.5)"
    by (simp add: not_or_ge_undefined_or_ge)
  show ?thesis
    unfolding normalAgingBlock_def fallbackBlock_def and_ge_defined [OF assms(1)]
      not_or_ge_hoc [OF assms(2)] z
    by simp
qed

text \<open>
  Claim C5. The claim gives the Normal-Aging pattern confidence High when no other pattern
  fired, the BPF z-score is at least -1.5 and hippocampal z and HOC are normal, and names a
  BPF z-score of exactly 0. The guard \<^verbatim>\<open>bpfZ && bpfZ >= -1.5\<close> is false at 0. For the
  volumes of \<open>normalAging_volumes\<close> at age 70, male, the ICV estimate is the BPF-based one,
  so the BPF sits on its expected value and its z-score rounds to 0; hippocampal z is 1.14
  and HOC is 0.909; the only pattern returned is Normal Aging with confidence Moderate.
\<close>

theorem normalAging_bpf_zero:
  "estimateICV normalAging_volumes 70 male = 1357895
   \<and> map_option bpf_zscore (ar_bpf normalAging_example) = Some 0
   \<and> effectiveZ_of normalAging_example ''Hippocampus'' = Some 1.14
   \<and> hocValue_of normalAging_example = Some 0.909
   \<and> detectClinicalPatterns normalAging_example =
       [\<lparr>pattern = ''Normal Aging Pattern'',
         confidence = ''Moderate'',
         indicators = [''volumes largely within expected range''],
         recommendation = ''Overall volumes appear normal. Continue routine monitoring.''\<rparr>]"
proof -
  have p: "fold partitionStep normalAging_volumes (0, 0) = (1032000, 30700)"
    by (simp add: normalAging_volumes_def partitionStep_def toLowerCase_def toLowerCase_char_def)
  have b: "fold brainVolumeStep normalAging_volumes 0 = 1032000"
    by (simp add: normalAging_volumes_def brainVolumeStep_def toLowerCase_def toLowerCase_char_def)
  have d: "min 80 (max 20 (Math_round (70 / 10) * 10)) = 70"
    by (simp add: Math_round_def)
  have e: "map_of BPF_NORMATIVE_byAge 70 = Some \<lparr>norm_mean = 0.76, norm_sd = 0.05\<rparr>"
    by (simp add: BPF_NORMATIVE_byAge_def)
  have icv: "estimateICV normalAging_volumes 70 male = 1357895"
    unfolding estimateICV_def p d e prod.case option.case Let_def
    by (simp add: Math_round_def)
  have z: "bpf_zscore (calculateBPF normalAging_volumes 1357895 70) = 0"
    unfolding calculateBPF_def b d e option.case Let_def
    by (simp add: Math_round_def)
  have h: "hoc_value (calculateHOC normalAging_volumes 70) = Some 0.909"
    by (simp add: normalAging_volumes_def calculateHOC_def volume_or_zero_def Let_def Math_round_def)
  have a: "alzheimerBlock (Some 1.14) (Some 0.909) None [] = []"
    by (simp add: alzheimerBlock_def)
  have f: "frontotemporalBlock None (Some 1.14) [] = []"
    by (simp add: frontotemporalBlock_def and_lt_def truthy_def)
  have v: "vascularBlock (Some 1.83) [] = []"
    by (simp add: vascularBlock_def and_lt_def truthy_def)
  have m: "earlyMCIBlock (Some 0.909) (Some 1.14) (Some (-2.54)) [] = []"
    by (simp add: earlyMCIBlock_def and_lt_def truthy_def)
  have n: "normalAgingBlock (Some 0) (Some 1.14) (Some 0.909) [] = []"
    by (simp add: normalAgingBlock_def and_ge_def truthy_def)
  have run: "detectClinicalPatterns normalAging_example =
             fallbackBlock
               (normalAgingBlock (Some 0) (Some 1.14) (Some 0.909)
                 (earlyMCIBlock (Some 0.909) (Some 1.14) (Some (-2.54))
                   (vascularBlock (Some 1.83)
                     (frontotemporalBlock None (Some 1.14)
                       (alzheimerBlock (Some 1.14) (Some 0.909) None [])))))"
    by (simp add: detectClinicalPatterns_def Let_def normalAging_example_def h icv z)
  show ?thesis
    unfolding run a f v m n
    by (simp add: icv fallbackBlock_def hocValue_of_def effectiveZ_of_def normalAging_example_def h z)
qed

section \<open>The normal distribution formula in exact arithmetic\<close>

text \<open>
  Claim C9 is about \<^verbatim>\<open>normalCDF\<close> as the program computes it, in double precision, where
  every operation rounds and the results for two arguments a few units in the last place
  apart may come out in either order. The facts of this section are about the formula over
  the reals: there its value at 0 is 0.5000000005 and it is non-decreasing. The polynomial
  is increasing on the unit interval because its derivative has positive Bernstein
  coefficients; \<open>t\<close> and the exponential both decrease in the scaled argument.
\<close>

lemma erfPoly'_expand:
  "erfPoly' t = 0.254829592 + 2 * (-0.284496736) * t + 3 * 1.421413741 * t ^ 2
                + 4 * (-1.453152027) * t ^ 3 + 5 * 1.061405429 * t ^ 4"
  unfolding erfPoly'_def
  by (simp add: power4_eq_xxxx power3_eq_cube power2_eq_square field_simps)

lemma erfPoly_deriv: "(erfPoly has_real_derivative erfPoly' t) (at t)"
  unfolding erfPoly_def [abs_def] erfPoly'_expand
  by (auto intro!: derivative_eq_intros simp add: power4_eq_xxxx power3_eq_cube power2_eq_square field_simps)

lemma erfPoly'_nonneg:
  assumes "0 \<le> t" "t \<le> 1"
  shows "0 \<le> erfPoly' t"
proof -
  have "0 \<le> 1 - t" using assms by simp
  then show ?thesis unfolding erfPoly'_def using assms(1)
    by (intro add_nonneg_nonneg mult_nonneg_nonneg zero_le_power) simp_all
qed

lemma erfPoly_mono:
  assumes "0 \<le> s" "s \<le> t" "t \<le> 1"
  shows "erfPoly s \<le> erfPoly t"
proof (rule DERIV_nonneg_imp_nondecreasing [OF assms(2)])
  fix x assume "s \<le> x" "x \<le> t"
  then have "0 \<le> x" "x \<le> 1" using assms by simp_all
  then show "\<exists>y. (erfPoly has_real_derivative y) (at x) \<and> 0 \<le> y"
    using erfPoly_deriv erfPoly'_nonneg by blast
qed

lemma erfPoly_0: "erfPoly 0 = 0" and erfPoly_1: "erfPoly 1 = 0.999999999"
  by (simp_all add: erfPoly_def)

lemma normalCDF_erfTail:
  "normalCDF z = 0.5 * (1 + (if z < 0 then -1 else 1) * (1 - erfTail (\<bar>z\<bar> / sqrt 2)))"
  unfolding normalCDF_def Let_def erfTail_def erfPoly_def by simp

lemma erfPoly_nonneg:
  assumes "0 \<le> t" "t \<le> 1"
  shows "0 \<le> erfPoly t"
  using erfPoly_mono [of 0 t] assms by (simp add: erfPoly_0)

lemma erfTail_antimono:
  assumes "0 \<le> x" "x \<le> y"
  shows "erfTail y \<le> erfTail x"
proof -
  define tx where "tx = 1 / (1 + 0.3275911 * x)"
  define ty where "ty = 1 / (1 + 0.3275911 * y)"
  have px: "1 \<le> 1 + 0.3275911 * x" and pxy: "1 + 0.3275911 * x \<le> 1 + 0.3275911 * y"
    using assms by simp_all
  have t: "0 \<le> ty" "ty \<le> tx" "tx \<le> 1"
    unfolding tx_def ty_def using px pxy by (simp_all add: frac_le)
  have poly: "erfPoly ty \<le> erfPoly tx" using erfPoly_mono [of ty tx] t by simp
  have nonneg: "0 \<le> erfPoly ty" using erfPoly_nonneg [of ty] t by simp
  have "x * x \<le> y * y" using assms by (simp add: mult_mono)
  then have ex: "exp (- y * y) \<le> exp (- x * x)" by simp
  have "erfPoly ty * exp (- y * y) \<le> erfPoly tx * exp (- x * x)"
    using poly ex nonneg by (intro mult_mono) simp_all
  then show ?thesis unfolding erfTail_def tx_def ty_def .
qed

lemma erfTail_0: "erfTail 0 = 0.999999999"
  by (simp add: erfTail_def erfPoly_1)

lemma erfTail_le_1:
  assumes "0 \<le> x"
  shows "erfTail x \<le> 1"
  using erfTail_antimono [of 0 x] assms by (simp add: erfTail_0)

lemma normalCDF_at_zero: "normalCDF 0 = 0.5000000005 \<and> \<bar>normalCDF 0 - 0.5\<bar> \<le> 1 / 10 ^ 6"
  by (simp add: normalCDF_erfTail erfTail_0)

lemma normalCDF_mono:
  assumes "z1 \<le> z2"
  shows "normalCDF z1 \<le> normalCDF z2"
proof -
  have s2: "0 < sqrt 2" by simp
  consider "z2 < 0" | "z1 < 0" "0 \<le> z2" | "0 \<le> z1" using assms by linarith
  then show ?thesis
  proof cases
    case 1
    then have "\<bar>z2\<bar> \<le> \<bar>z1\<bar>" using assms by simp
    then have "\<bar>z2\<bar> / sqrt 2 \<le> \<bar>z1\<bar> / sqrt 2" by (simp add: divide_right_mono)
    moreover have "0 \<le> \<bar>z2\<bar> / sqrt 2" by (intro divide_nonneg_nonneg) simp_all
    ultimately have "erfTail (\<bar>z1\<bar> / sqrt 2) \<le> erfTail (\<bar>z2\<bar> / sqrt 2)"
      by (intro erfTail_antimono)
    then show ?thesis using 1 assms by (simp add: normalCDF_erfTail)
  next
    case 2
    have "erfTail (\<bar>z1\<bar> / sqrt 2) \<le> 1" "erfTail (\<bar>z2\<bar> / sqrt 2) \<le> 1"
      by (simp_all add: erfTail_le_1)
    then show ?thesis using 2 by (simp add: normalCDF_erfTail)
  next
    case 3
    then have "\<bar>z1\<bar> \<le> \<bar>z2\<bar>" using assms by simp
    then have "\<bar>z1\<bar> / sqrt 2 \<le> \<bar>z2\<bar> / sqrt 2" by (simp add: divide_right_mono)
    moreover have "0 \<le> \<bar>z1\<bar> / sqrt 2" by (intro divide_nonneg_nonneg) simp_all
    ultimately have "erfTail (\<bar>z2\<bar> / sqrt 2) \<le> erfTail (\<bar>z1\<bar> / sqrt 2)"
      by (intro erfTail_antimono)
    then show ?thesis using 3 assms by (simp add: normalCDF_erfTail)
  qed
qed

end
